theory Spec2Isabelle
  imports Main "HOL-Library.Sublist"
begin

section \<open>JavaScript strings\<close>

text \<open>
  A string is a list of characters; an 8-bit \<^typ>\<open>char\<close> is read as the code point
  U+0000 .. U+00FF of the same number (ASCII and the Latin-1 supplement). The string
  methods the front end calls are modelled on that range.
\<close>

definition toLowerCase_char :: "char \<Rightarrow> char" where
  \<comment> \<open>A..Z and the Latin-1 capitals (U+00C0 .. U+00DE but the multiplication sign) move
      up by 32; every other character is its own lower case.\<close>
  "toLowerCase_char c =
     (let n = (of_char c :: nat)
      in if (65 \<le> n \<and> n \<le> 90) \<or> (192 \<le> n \<and> n \<le> 222 \<and> n \<noteq> 215)
         then char_of (n + 32) else c)"

definition toLowerCase :: "string \<Rightarrow> string" where
  "toLowerCase s = map toLowerCase_char s"

fun str_includes :: "string \<Rightarrow> string \<Rightarrow> bool" where
  \<comment> \<open>\<open>s.includes(k)\<close>: some position of \<open>s\<close> starts with \<open>k\<close>.\<close>
  "str_includes [] k = (k = [])"
| "str_includes (c # cs) k = (prefix k (c # cs) \<or> str_includes cs k)"

definition isWhiteSpace :: "char \<Rightarrow> bool" where
  \<comment> \<open>WhiteSpace and LineTerminator below U+0100: TAB, LF, VT, FF, CR, SP, NBSP.\<close>
  "isWhiteSpace c = ((of_char c :: nat) \<in> {9, 10, 11, 12, 13, 32, 160})"

definition trim :: "string \<Rightarrow> string" where
  "trim s = rev (dropWhile isWhiteSpace (rev (dropWhile isWhiteSpace s)))"

definition truthy :: "string option \<Rightarrow> bool" where
  \<comment> \<open>JavaScript truthiness of a value that is a string, \<open>null\<close> or \<open>undefined\<close>.\<close>
  "truthy v = (case v of None \<Rightarrow> False | Some s \<Rightarrow> s \<noteq> [])"

definition or_default :: "string option \<Rightarrow> string \<Rightarrow> string" where
  \<comment> \<open>\<open>v || d\<close> for such a value.\<close>
  "or_default v d = (case v of None \<Rightarrow> d | Some s \<Rightarrow> if s = [] then d else s)"

section \<open>Emergency keywords (SymptomChat.jsx, constants.js)\<close>

definition emergencyKeywords :: "string list" where
  \<comment> \<open>the list local to \<open>containsEmergencyKeywords\<close>\<close>
  "emergencyKeywords =
     [''chest pain'', ''difficulty breathing'', ''severe pain'', ''bleeding heavily'',
      ''unconscious'', ''stroke'', ''heart attack'', ''suicide'', ''overdose'',
      ''severe headache'', ''high fever'', ''can't breathe'']"

definition EMERGENCY_KEYWORDS :: "string list" where
  \<comment> \<open>the exported constant of constants.js\<close>
  "EMERGENCY_KEYWORDS =
     [''chest pain'',
      ''difficulty breathing'',
      ''severe pain'',
      ''bleeding heavily'',
      ''unconscious'',
      ''stroke'',
      ''heart attack'',
      ''suicide'',
      ''overdose'',
      ''severe headache'',
      ''high fever'',
      ''can't breathe'']"

definition containsEmergencyKeywords :: "string \<Rightarrow> bool" where
  "containsEmergencyKeywords message =
     list_ex (\<lambda>keyword. str_includes (toLowerCase message) keyword) emergencyKeywords"

section \<open>Booking an appointment (BookAppointment.jsx)\<close>

subsection \<open>Numbers as text\<close>

definition digit_char :: "nat \<Rightarrow> char" where
  "digit_char d = char_of (48 + d)"

fun toString_nat :: "nat \<Rightarrow> string" where
  \<comment> \<open>\<open>n.toString()\<close> of a non-negative integer\<close>
  "toString_nat n =
     (if n < 10 then [digit_char n] else toString_nat (n div 10) @ [digit_char (n mod 10)])"

definition padStart :: "nat \<Rightarrow> char \<Rightarrow> string \<Rightarrow> string" where
  \<comment> \<open>\<open>s.padStart(targetLength, c)\<close> for a one-character filler\<close>
  "padStart targetLength c s = replicate (targetLength - length s) c @ s"

subsection \<open>Time slots\<close>

definition timeString :: "nat \<Rightarrow> nat \<Rightarrow> string" where
  "timeString hour minute =
     padStart 2 CHR ''0'' (toString_nat hour) @ '':'' @ padStart 2 CHR ''0'' (toString_nat minute)"

text \<open>The two nested \<open>for\<close> loops of \<open>generateTimeSlots\<close>, the loop variable explicit.\<close>

function minuteLoop :: "nat \<Rightarrow> nat \<Rightarrow> string list \<Rightarrow> string list" where
  "minuteLoop hour minute slots =
     (if minute < 60 then minuteLoop hour (minute + 30) (slots @ [timeString hour minute])
      else slots)"
  by pat_completeness auto
termination
  by (relation "measure (\<lambda>(hour, minute, slots). 60 - minute)") auto

function hourLoop :: "nat \<Rightarrow> string list \<Rightarrow> string list" where
  "hourLoop hour slots =
     (if hour \<le> 17 then hourLoop (hour + 1) (minuteLoop hour 0 slots) else slots)"
  by pat_completeness auto
termination
  by (relation "measure (\<lambda>(hour, slots). 18 - hour)") auto

definition generateTimeSlots :: "string list" where
  "generateTimeSlots = hourLoop 9 []"

definition spec_timeSlots :: "string list" where
  \<comment> \<open>The specification's wording: the times at :00 and :30 from 09:00 to 17:00, ascending.\<close>
  "spec_timeSlots =
     concat (map (\<lambda>hour. concat (map (\<lambda>minute.
         if 9 * 60 \<le> 60 * hour + minute \<and> 60 * hour + minute \<le> 17 * 60
         then [timeString hour minute] else []) [0, 30])) [0..<24])"

subsection \<open>The bounds of the date picker\<close>

text \<open>
  A \<open>Date\<close> is its time value, the milliseconds since the epoch in UTC. A calendar date
  is the number of its day since 1970-01-01; the text \<open>YYYY-MM-DD\<close> that the page passes
  on is the rendering of that number. A time zone gives the offset of local time from
  UTC, in minutes east of UTC, which may change in the course of the year: once for an
  instant given in UTC, and once for a local time value that is to be taken back to UTC
  (where the rules of the zone settle which offset a skipped or repeated local time gets).
\<close>

record time_zone =
  offsetAtUTC :: "int \<Rightarrow> int"
  offsetAtLocal :: "int \<Rightarrow> int"

definition msPerDay :: int where
  "msPerDay = 86400000"

definition msPerMinute :: int where
  "msPerMinute = 60000"

definition LocalTime :: "time_zone \<Rightarrow> int \<Rightarrow> int" where
  "LocalTime zone t = t + offsetAtUTC zone t * msPerMinute"

definition UTC :: "time_zone \<Rightarrow> int \<Rightarrow> int" where
  "UTC zone l = l - offsetAtLocal zone l * msPerMinute"

definition Day :: "int \<Rightarrow> int" where
  "Day t = t div msPerDay"

definition TimeWithinDay :: "int \<Rightarrow> int" where
  "TimeWithinDay t = t mod msPerDay"

definition MakeDate :: "int \<Rightarrow> int \<Rightarrow> int" where
  "MakeDate day time = day * msPerDay + time"

definition addLocalDays :: "time_zone \<Rightarrow> int \<Rightarrow> int \<Rightarrow> int" where
  \<comment> \<open>\<open>d.setDate(d.getDate() + n)\<close>: the local calendar day moves by \<open>n\<close>, the local
      time of day stays, and the new local time goes back to UTC with the offset that
      holds for it.\<close>
  "addLocalDays zone n t =
     (let local = LocalTime zone t
      in UTC zone (MakeDate (Day local + n) (TimeWithinDay local)))"

definition toISODate :: "int \<Rightarrow> int" where
  \<comment> \<open>\<open>d.toISOString().split('T')[0]\<close>: the calendar date of the instant in UTC\<close>
  "toISODate t = Day t"

definition localDate :: "time_zone \<Rightarrow> int \<Rightarrow> int" where
  \<comment> \<open>the calendar date the user's clock shows\<close>
  "localDate zone t = Day (LocalTime zone t)"

definition getMinDate :: "time_zone \<Rightarrow> int \<Rightarrow> int" where
  "getMinDate zone now = toISODate (addLocalDays zone 1 now)"

definition getMaxDate :: "time_zone \<Rightarrow> int \<Rightarrow> int" where
  "getMaxDate zone now = toISODate (addLocalDays zone 30 now)"

definition same_date_ahead :: "time_zone \<Rightarrow> int \<Rightarrow> int \<Rightarrow> bool" where
  \<comment> \<open>\<open>n\<close> local days ahead, at the local time of day of \<open>now\<close>, the calendar date in
      UTC is the one on the user's clock: taken back by the offset in force then, the
      local time of day stays within the day.\<close>
  "same_date_ahead zone n now =
     (let local = LocalTime zone now;
          shift = offsetAtLocal zone (local + n * msPerDay) * msPerMinute
      in shift \<le> TimeWithinDay local \<and> TimeWithinDay local < shift + msPerDay)"

text \<open>Three zones, the last two around their change of offset in 2026.\<close>

definition India :: time_zone where
  \<comment> \<open>UTC+5:30 throughout\<close>
  "India = \<lparr>offsetAtUTC = (\<lambda>t. 330), offsetAtLocal = (\<lambda>l. 330)\<rparr>"

definition NewYork :: time_zone where
  \<comment> \<open>UTC-4 until 2026-11-01 06:00 UTC (02:00 local), UTC-5 from then\<close>
  "NewYork =
     \<lparr>offsetAtUTC = (\<lambda>t. if t < 1793512800000 then - 240 else - 300),
      offsetAtLocal = (\<lambda>l. if l < 1793498400000 then - 240 else - 300)\<rparr>"

definition Berlin :: time_zone where
  \<comment> \<open>UTC+1 until 2026-03-29 01:00 UTC (02:00 local, which becomes 03:00), UTC+2 from then\<close>
  "Berlin =
     \<lparr>offsetAtUTC = (\<lambda>t. if t < 1774746000000 then 60 else 120),
      offsetAtLocal = (\<lambda>l. if l < 1774753200000 then 60 else 120)\<rparr>"

section \<open>Calls to the API, replies and effects\<close>

type_synonym json_object = "(string \<times> string option) list"
  \<comment> \<open>the fields of a JSON body in their order; \<open>None\<close> is \<open>null\<close>\<close>

datatype http_method = GET | POST | PUT

record api_call =
  verb :: http_method
  url :: string
  body :: json_object

datatype 'a reply =
    Rejected "string option"  \<comment> \<open>the promise rejects; the value is \<open>error.response?.data?.detail\<close>\<close>
  | Resolved 'a               \<comment> \<open>the promise resolves; the value is \<open>response.data\<close>\<close>

record user =
  full_name :: string
  user_type :: string

record image_file =
  file_name :: string
  file_size :: nat    \<comment> \<open>\<open>file.size\<close>, in bytes\<close>
  dataURL :: string   \<comment> \<open>what \<open>FileReader.readAsDataURL\<close> yields for the file\<close>

datatype effect =
    Api api_call
  | ToastSuccess string
  | ToastError string
  | ReadAsDataURL image_file

section \<open>Authentication (AuthContext.jsx)\<close>

record auth_state =
  user :: "user option"
  loading :: bool
  medix_token :: "string option"    \<comment> \<open>\<open>localStorage\<close>, key \<open>medix_token\<close>\<close>
  Authorization :: "string option"  \<comment> \<open>\<open>api.defaults.headers.common['Authorization']\<close>\<close>

record auth_data =
  access_token :: string
  data_user :: "user option"  \<comment> \<open>\<open>response.data.user\<close>; \<open>None\<close> when the field is missing\<close>

record auth_result =
  success :: bool
  error :: "string option"

definition install_token :: "auth_data \<Rightarrow> auth_state \<Rightarrow> auth_state" where
  \<comment> \<open>the three statements \<open>login\<close> and \<open>signup\<close> share after the response has arrived\<close>
  "install_token d s =
     s\<lparr>medix_token := Some (access_token d),
       Authorization := Some (''Bearer '' @ access_token d),
       user := data_user d\<rparr>"

definition login ::
  "string \<Rightarrow> string \<Rightarrow> auth_data reply \<Rightarrow> auth_state \<Rightarrow> auth_state \<times> effect list \<times> auth_result"
where
  "login email password r s =
     (let call = Api \<lparr>verb = POST, url = ''/auth/login'',
                      body = [(''email'', Some email), (''password'', Some password)]\<rparr>
      in case r of
           Rejected detail \<Rightarrow>
             (let message = or_default detail ''Login failed''
              in (s, [call, ToastError message], \<lparr>success = False, error = Some message\<rparr>))
         | Resolved d \<Rightarrow>
             (case data_user d of
                Some userData \<Rightarrow>
                  (install_token d s,
                   [call, ToastSuccess (''Welcome back, '' @ full_name userData @ ''!'')],
                   \<lparr>success = True, error = None\<rparr>)
              | None \<Rightarrow>
                  \<comment> \<open>\<open>userData.full_name\<close> throws a TypeError, which has no \<open>response\<close>\<close>
                  (install_token d s, [call, ToastError ''Login failed''],
                   \<lparr>success = False, error = Some ''Login failed''\<rparr>)))"

definition signup ::
  "json_object \<Rightarrow> auth_data reply \<Rightarrow> auth_state \<Rightarrow> auth_state \<times> effect list \<times> auth_result"
where
  "signup userData r s =
     (let endpoint = (if map_of userData ''user_type'' = Some (Some ''patient'')
                      then ''/auth/signup/patient'' else ''/auth/signup/doctor'');
          call = Api \<lparr>verb = POST, url = endpoint, body = userData\<rparr>
      in case r of
           Rejected detail \<Rightarrow>
             (let message = or_default detail ''Signup failed''
              in (s, [call, ToastError message], \<lparr>success = False, error = Some message\<rparr>))
         | Resolved d \<Rightarrow>
             (case data_user d of
                Some newUser \<Rightarrow>
                  (install_token d s,
                   [call, ToastSuccess (''Welcome to MediX, '' @ full_name newUser @ ''!'')],
                   \<lparr>success = True, error = None\<rparr>)
              | None \<Rightarrow>
                  (install_token d s, [call, ToastError ''Signup failed''],
                   \<lparr>success = False, error = Some ''Signup failed''\<rparr>)))"

definition logout :: "auth_state \<Rightarrow> auth_state \<times> effect list" where
  "logout s =
     (s\<lparr>medix_token := None, Authorization := None, user := None\<rparr>,
      [ToastSuccess ''Logged out successfully''])"

definition checkAuthStatus :: "user reply \<Rightarrow> auth_state \<Rightarrow> auth_state \<times> effect list" where
  "checkAuthStatus r s =
     (case medix_token s of
        None \<Rightarrow> (s\<lparr>loading := False\<rparr>, [])
      | Some token \<Rightarrow>
          if token = [] then (s\<lparr>loading := False\<rparr>, [])
          else
            (let s1 = s\<lparr>Authorization := Some (''Bearer '' @ token)\<rparr>;
                 call = Api \<lparr>verb = GET, url = ''/auth/me'', body = []\<rparr>
             in case r of
                  Resolved u \<Rightarrow> (s1\<lparr>user := Some u, loading := False\<rparr>, [call])
                | Rejected detail \<Rightarrow>
                    (s1\<lparr>medix_token := None, Authorization := None, loading := False\<rparr>,
                     [call])))"

record http_request = api_call +
  headers :: "(string \<times> string) list"

definition api_send :: "auth_state \<Rightarrow> api_call \<Rightarrow> http_request" where
  \<comment> \<open>Modelled from the spec: the \<open>api\<close> object of services/api is not among the sources.
      It is the HTTP client whose default headers go out with every request, so the
      bearer token is "sent on every subsequent request".\<close>
  "api_send s c =
     \<lparr>verb = verb c, url = url c, body = body c,
      headers = (case Authorization s of None \<Rightarrow> [] | Some h \<Rightarrow> [(''Authorization'', h)])\<rparr>"

section \<open>Route guards (App.jsx)\<close>

datatype page =
    HomePage | Login | Signup | PatientDashboard | DoctorDashboard
  | ImageDetection | SymptomChat | AppointmentList | BookAppointment

datatype element = Spinner | Navigate string | Page page

definition ProtectedRoute :: "user option \<Rightarrow> bool \<Rightarrow> element \<Rightarrow> element" where
  "ProtectedRoute usr ld children =
     (if ld then Spinner else if usr \<noteq> None then children else Navigate ''/login'')"

definition PublicRoute :: "user option \<Rightarrow> bool \<Rightarrow> element \<Rightarrow> element" where
  "PublicRoute usr ld children =
     (if ld then Spinner else if usr \<noteq> None then Navigate ''/dashboard'' else children)"

definition routes :: "user option \<Rightarrow> bool \<Rightarrow> (string \<times> element) list" where
  \<comment> \<open>the \<open>Route\<close> elements of \<open>AppContent\<close> in their order\<close>
  "routes usr ld =
     [(''/'', PublicRoute usr ld (Page HomePage)),
      (''/login'', PublicRoute usr ld (Page Login)),
      (''/signup'', PublicRoute usr ld (Page Signup)),
      (''/dashboard'', ProtectedRoute usr ld
          (if map_option user_type usr = Some ''patient''
           then Page PatientDashboard else Page DoctorDashboard)),
      (''/detect'', ProtectedRoute usr ld (Page ImageDetection)),
      (''/chat'', ProtectedRoute usr ld (Page SymptomChat)),
      (''/appointments'', ProtectedRoute usr ld (Page AppointmentList)),
      (''/book-appointment'', ProtectedRoute usr ld (Page BookAppointment)),
      (''/'', Navigate ''/dashboard'')]"

definition AppContent :: "auth_state \<Rightarrow> string \<Rightarrow> bool \<times> element option" where
  \<comment> \<open>whether the header is shown, and the element of the first route whose path is the
      location (none when no route matches)\<close>
  "AppContent s path = (user s \<noteq> None, map_of (routes (user s) (loading s)) path)"

definition authenticated_pages :: "page set" where
  \<comment> \<open>the pages that App.jsx wraps in \<open>ProtectedRoute\<close>\<close>
  "authenticated_pages =
     {PatientDashboard, DoctorDashboard, ImageDetection, SymptomChat, AppointmentList,
      BookAppointment}"

section \<open>Image detection (ImageDetection.jsx)\<close>

text \<open>
  The state of the component, the type \<open>'r\<close> being what \<open>/disease/detect\<close> answers.
  \<open>detecting\<close> is the component's \<open>loading\<close>.
\<close>

record 'r detect_state =
  selectedModel :: string
  selectedImage :: "string option"
  imagePreview :: "string option"
  symptoms :: string
  detecting :: bool
  results :: "'r option"

definition handleImageSelect ::
  "image_file option \<Rightarrow> 'r detect_state \<Rightarrow> 'r detect_state \<times> effect list"
where
  \<comment> \<open>the argument is \<open>event.target.files[0]\<close>\<close>
  "handleImageSelect chosen s =
     (case chosen of
        None \<Rightarrow> (s, [])
      | Some f \<Rightarrow>
          if file_size f > 10 * 1024 * 1024
          then (s, [ToastError ''Image size should be less than 10MB''])
          else (s, [ReadAsDataURL f]))"

definition reader_onload :: "string \<Rightarrow> 'r detect_state \<Rightarrow> 'r detect_state" where
  \<comment> \<open>the \<open>onload\<close> callback; the argument is \<open>e.target.result\<close>\<close>
  "reader_onload result s = s\<lparr>selectedImage := Some result, imagePreview := Some result\<rparr>"

definition deliver_reads :: "'r detect_state \<times> effect list \<Rightarrow> 'r detect_state" where
  \<comment> \<open>the browser completes every read that was started and calls \<open>onload\<close> with the
      file's data URL\<close>
  "deliver_reads p =
     foldl (\<lambda>s e. case e of ReadAsDataURL f \<Rightarrow> reader_onload (dataURL f) s | _ \<Rightarrow> s)
       (fst p) (snd p)"

definition handleDetection :: "'r reply \<Rightarrow> 'r detect_state \<Rightarrow> 'r detect_state \<times> effect list" where
  "handleDetection r s =
     (if selectedModel s = [] then (s, [ToastError ''Please select a disease type''])
      else if \<not> truthy (selectedImage s) then (s, [ToastError ''Please upload an image''])
      else
        (let s1 = s\<lparr>detecting := True, results := None\<rparr>;
             call = Api \<lparr>verb = POST, url = ''/disease/detect'',
                         body = [(''disease_type'', Some (selectedModel s)),
                                 (''image_base64'', selectedImage s),
                                 (''symptoms'', if trim (symptoms s) = [] then None
                                               else Some (trim (symptoms s)))]\<rparr>
         in case r of
              Resolved d \<Rightarrow>
                (s1\<lparr>results := Some d, detecting := False\<rparr>,
                 [call, ToastSuccess ''Analysis completed successfully!''])
            | Rejected detail \<Rightarrow>
                (s1\<lparr>detecting := False\<rparr>,
                 [call, ToastError (or_default detail ''Analysis failed. Please try again.'')])))"

definition request_symptoms :: "effect \<Rightarrow> string option" where
  \<comment> \<open>the \<open>symptoms\<close> field of the body of a request (\<open>None\<close> for \<open>null\<close> or no field)\<close>
  "request_symptoms e =
     (case e of
        Api c \<Rightarrow> (case map_of (body c) ''symptoms'' of None \<Rightarrow> None | Some v \<Rightarrow> v)
      | _ \<Rightarrow> None)"

definition refiner_invoked :: "string option \<Rightarrow> bool" where
  \<comment> \<open>Modelled from the spec: the back end that answers \<open>/disease/detect\<close> is not among
      the sources. Its symptom refiner is "invoked only when \<open>symptomText\<close> is
      non-empty"; the argument is the symptoms text that the request carries.\<close>
  "refiner_invoked symptomText = (case symptomText of None \<Rightarrow> False | Some t \<Rightarrow> t \<noteq> [])"

section \<open>Symptom chat (SymptomChat.jsx)\<close>

text \<open>A message of the transcript, without its time stamp.\<close>

record message =
  type :: string
  content :: string

record assessment =
  urgency_level :: string
  immediate_actions :: string

record chat_data =
  response :: string
  session_id :: "string option"

record chat_state =
  messages :: "message list"
  inputMessage :: string
  typing :: bool  \<comment> \<open>the component's \<open>loading\<close>\<close>
  sessionId :: "string option"
  emergencyAssessment :: "assessment option"

definition checkEmergencyStatus ::
  "string \<Rightarrow> assessment reply \<Rightarrow> chat_state \<Rightarrow> chat_state \<times> effect list"
where
  "checkEmergencyStatus text r s =
     (case r of Resolved a \<Rightarrow> s\<lparr>emergencyAssessment := Some a\<rparr> | Rejected detail \<Rightarrow> s,
      [Api \<lparr>verb = POST, url = ''/disease/emergency-assessment'',
            body = [(''symptoms'', Some text)]\<rparr>])"

definition sendMessage ::
  "chat_data reply \<Rightarrow> assessment reply \<Rightarrow> chat_state \<Rightarrow> chat_state \<times> effect list"
where
  \<comment> \<open>\<open>r\<close> answers the chat request, \<open>er\<close> the emergency assessment if one is asked for\<close>
  "sendMessage r er s =
     (if trim (inputMessage s) = [] then (s, [])
      else
        (let userMessage = \<lparr>type = ''user'', content = inputMessage s\<rparr>;
             s1 = s\<lparr>messages := messages s @ [userMessage], typing := True\<rparr>;
             call = (if truthy (sessionId s)
                     then Api \<lparr>verb = POST, url = ''/chat/continue'',
                               body = [(''message'', Some (inputMessage s)),
                                       (''session_id'', sessionId s)]\<rparr>
                     else Api \<lparr>verb = POST, url = ''/chat/start'',
                               body = [(''message'', Some (inputMessage s))]\<rparr>);
             (s4, effs) =
               (case r of
                  Resolved d \<Rightarrow>
                    (let s2 = (if truthy (sessionId s) then s1
                               else s1\<lparr>sessionId := session_id d\<rparr>);
                         assistantMessage = \<lparr>type = ''assistant'', content = response d\<rparr>;
                         s3 = s2\<lparr>messages := messages s2 @ [assistantMessage]\<rparr>
                     in if containsEmergencyKeywords (inputMessage s)
                        then (let (s', effs') = checkEmergencyStatus (inputMessage s) er s3
                              in (s', call # effs'))
                        else (s3, [call]))
                | Rejected detail \<Rightarrow>
                    (let errorMessage =
                           \<lparr>type = ''assistant'',
                            content = ''I apologize, but I'm having trouble responding right now. Please try again in a moment, or if you have urgent medical concerns, please contact a healthcare professional immediately.''\<rparr>
                     in (s1\<lparr>messages := messages s1 @ [errorMessage]\<rparr>,
                         [call, ToastError ''Failed to send message. Please try again.''])))
         in (s4\<lparr>typing := False, inputMessage := []\<rparr>, effs)))"


definition sendDisabled :: "chat_state \<Rightarrow> bool" where
  \<comment> \<open>the \<open>disabled\<close> attribute of the send button\<close>
  "sendDisabled s = (typing s \<or> trim (inputMessage s) = [])"

definition initial_chat_state :: chat_state where
  \<comment> \<open>the initial values of the \<open>useState\<close> calls\<close>
  "initial_chat_state =
     \<lparr>messages = [], inputMessage = [], typing = False, sessionId = None,
      emergencyAssessment = None\<rparr>"

subsection \<open>A conversation as a run of events\<close>

definition start_call :: "string \<Rightarrow> effect" where
  "start_call text =
     Api \<lparr>verb = POST, url = ''/chat/start'', body = [(''message'', Some text)]\<rparr>"

definition continue_call :: "string \<Rightarrow> string option \<Rightarrow> effect" where
  "continue_call text sid =
     Api \<lparr>verb = POST, url = ''/chat/continue'',
          body = [(''message'', Some text), (''session_id'', sid)]\<rparr>"

definition posts_to :: "string \<Rightarrow> effect \<Rightarrow> bool" where
  "posts_to path e = (case e of Api c \<Rightarrow> url c = path | _ \<Rightarrow> False)"

text \<open>
  \<open>sendMessage\<close> is asynchronous: it stops at \<open>await api.post\<close> and, when the message
  has an emergency keyword, once more at \<open>await checkEmergencyStatus\<close>. While it waits
  the page stays live (the New Chat button is never disabled), so other handlers run in
  between. The call is therefore cut at its two \<open>await\<close>s. A handler reads the state as
  it is when the handler is called; a call that waits keeps the values of \<open>sessionId\<close>
  and \<open>inputMessage\<close> that it read when it began; every \<open>set...\<close> acts on the state of
  the moment. An event may come at any time, also a click on Send while a call waits.
\<close>

datatype pending =
    AwaitingChat "string option" string
      \<comment> \<open>waiting for the answer of the chat request; the \<open>sessionId\<close> and the
          \<open>inputMessage\<close> that the call read\<close>
  | AwaitingAssessment
      \<comment> \<open>waiting inside \<open>checkEmergencyStatus\<close>\<close>

definition chat_request :: "string option \<Rightarrow> string \<Rightarrow> effect" where
  \<comment> \<open>the \<open>if (sessionId)\<close> of \<open>sendMessage\<close>\<close>
  "chat_request sid input =
     (if truthy sid then continue_call input sid else start_call input)"

definition sendMessage_finally :: "chat_state \<Rightarrow> chat_state" where
  "sendMessage_finally s = s\<lparr>typing := False, inputMessage := []\<rparr>"

definition sendMessage_call :: "chat_state \<Rightarrow> chat_state \<times> effect list \<times> pending option" where
  \<comment> \<open>from the click to the first \<open>await\<close>\<close>
  "sendMessage_call s =
     (if trim (inputMessage s) = [] then (s, [], None)
      else
        (let userMessage = \<lparr>type = ''user'', content = inputMessage s\<rparr>
         in (s\<lparr>messages := messages s @ [userMessage], typing := True\<rparr>,
             [chat_request (sessionId s) (inputMessage s)],
             Some (AwaitingChat (sessionId s) (inputMessage s)))))"

definition sendMessage_answered ::
  "string option \<Rightarrow> string \<Rightarrow> chat_data reply \<Rightarrow> chat_state
     \<Rightarrow> chat_state \<times> effect list \<times> pending option"
where
  \<comment> \<open>from the answer of the chat request to the second \<open>await\<close>, or to the end\<close>
  "sendMessage_answered sid input r s =
     (case r of
        Resolved d \<Rightarrow>
          (let s2 = (if truthy sid then s else s\<lparr>sessionId := session_id d\<rparr>);
               assistantMessage = \<lparr>type = ''assistant'', content = response d\<rparr>;
               s3 = s2\<lparr>messages := messages s2 @ [assistantMessage]\<rparr>
           in if containsEmergencyKeywords input
              then (s3,
                    [Api \<lparr>verb = POST, url = ''/disease/emergency-assessment'',
                          body = [(''symptoms'', Some input)]\<rparr>],
                    Some AwaitingAssessment)
              else (sendMessage_finally s3, [], None))
      | Rejected detail \<Rightarrow>
          (let errorMessage =
                 \<lparr>type = ''assistant'',
                  content = ''I apologize, but I'm having trouble responding right now. Please try again in a moment, or if you have urgent medical concerns, please contact a healthcare professional immediately.''\<rparr>
           in (sendMessage_finally (s\<lparr>messages := messages s @ [errorMessage]\<rparr>),
               [ToastError ''Failed to send message. Please try again.''], None)))"

definition sendMessage_assessed :: "assessment reply \<Rightarrow> chat_state \<Rightarrow> chat_state" where
  \<comment> \<open>from the answer of the emergency assessment to the end\<close>
  "sendMessage_assessed er s =
     sendMessage_finally
       (case er of Resolved a \<Rightarrow> s\<lparr>emergencyAssessment := Some a\<rparr> | Rejected detail \<Rightarrow> s)"










section \<open>Appointment list (AppointmentList.jsx)\<close>

record appointment =
  appointment_id :: nat  \<comment> \<open>the field \<open>id\<close>\<close>
  status :: string
  meet_link :: "string option"

datatype control =
    JoinCall string  \<comment> \<open>the link to the call\<close>
  | StatusButton string nat string
      \<comment> \<open>a button: its label and the arguments its click passes to \<open>updateAppointmentStatus\<close>\<close>

definition appointmentActions :: "user option \<Rightarrow> appointment \<Rightarrow> control list" where
  \<comment> \<open>the "Actions" block of one appointment of the rendered list\<close>
  "appointmentActions usr a =
     (if truthy (meet_link a) \<and> status a = ''scheduled''
      then (case meet_link a of None \<Rightarrow> [] | Some link \<Rightarrow> [JoinCall link]) else [])
     @ (if status a = ''scheduled''
        then (if map_option user_type usr = Some ''doctor''
              then [StatusButton ''Complete'' (appointment_id a) ''completed''] else [])
             @ [StatusButton ''Cancel'' (appointment_id a) ''cancelled'']
        else [])"

definition updateAppointmentStatus :: "nat \<Rightarrow> string \<Rightarrow> string \<Rightarrow> unit reply \<Rightarrow> effect list" where
  \<comment> \<open>the request and the toast; on success the list is fetched again\<close>
  "updateAppointmentStatus appointmentId newStatus notes r =
     Api \<lparr>verb = PUT,
          url = ''/appointments/appointments/'' @ toString_nat appointmentId @ ''/status'',
          body = [(''status'', Some newStatus), (''notes'', Some notes)]\<rparr>
     # (case r of
          Resolved u \<Rightarrow>
            [ToastSuccess (''Appointment '' @ newStatus @ '' successfully''),
             Api \<lparr>verb = GET, url = ''/appointments/my-appointments'', body = []\<rparr>]
        | Rejected detail \<Rightarrow> [ToastError ''Failed to update appointment status''])"

definition click :: "control \<Rightarrow> unit reply \<Rightarrow> effect list" where
  "click c r =
     (case c of
        JoinCall link \<Rightarrow> []
      | StatusButton label appointmentId newStatus \<Rightarrow>
          updateAppointmentStatus appointmentId newStatus [] r)"

section \<open>Facts about the string methods\<close>

lemma str_includes_sublist: "str_includes s k \<longleftrightarrow> sublist k s"
  by (induction s) (simp_all add: sublist_Cons_right)

lemma str_includes_iff: "str_includes s k \<longleftrightarrow> (\<exists>ps ss. s = ps @ k @ ss)"
  by (simp add: str_includes_sublist sublist_def)

lemma dropWhile_all_iff: "(\<forall>x \<in> set (dropWhile P s). P x) \<longleftrightarrow> dropWhile P s = []"
proof
  assume all: "\<forall>x \<in> set (dropWhile P s). P x"
  show "dropWhile P s = []"
  proof (rule ccontr)
    assume ne: "dropWhile P s \<noteq> []"
    then have "\<not> P (hd (dropWhile P s))" by (rule hd_dropWhile)
    moreover from ne have "hd (dropWhile P s) \<in> set (dropWhile P s)" by simp
    ultimately show False using all by blast
  qed
next
  assume empty: "dropWhile P s = []"
  show "\<forall>x \<in> set (dropWhile P s). P x" unfolding empty by simp
qed

lemma trim_empty_iff: "trim s = [] \<longleftrightarrow> (\<forall>c \<in> set s. isWhiteSpace c)"
proof -
  have "trim s = [] \<longleftrightarrow> (\<forall>x \<in> set (dropWhile isWhiteSpace s). isWhiteSpace x)"
    by (simp add: trim_def)
  also have "\<dots> \<longleftrightarrow> dropWhile isWhiteSpace s = []"
    by (rule dropWhile_all_iff)
  also have "\<dots> \<longleftrightarrow> (\<forall>c \<in> set s. isWhiteSpace c)"
    by simp
  finally show ?thesis .
qed

lemma emergencyKeywords_constant: "emergencyKeywords = EMERGENCY_KEYWORDS"
  by (simp add: emergencyKeywords_def EMERGENCY_KEYWORDS_def)

section \<open>Emergency triage\<close>

text \<open>
  C1. For every message, \<open>containsEmergencyKeywords\<close> is true exactly when the lower-cased
  message has one of the twelve fixed keywords as a substring. Lower-casing works
  character by character: it takes A..Z to a..z (and a capital of Latin-1 to its small
  letter) and leaves small letters, digits, the blank and the apostrophe as they are, so
  a keyword is found in whatever case it is written. The check is true of "I have chest pain", of "I have CHEST PAIN" and of
  "no chest pain" (no negation handling), false of "mild headache".
\<close>

theorem containsEmergencyKeywords_spec:
  "(containsEmergencyKeywords s \<longleftrightarrow>
      (\<exists>k \<in> set [''chest pain'', ''difficulty breathing'', ''severe pain'',
                   ''bleeding heavily'', ''unconscious'', ''stroke'', ''heart attack'',
                   ''suicide'', ''overdose'', ''severe headache'', ''high fever'',
                   ''can't breathe''].
         \<exists>ps ss. toLowerCase s = ps @ k @ ss))
   \<and> length emergencyKeywords = 12
   \<and> containsEmergencyKeywords ''I have chest pain''
   \<and> \<not> containsEmergencyKeywords ''mild headache''
   \<and> containsEmergencyKeywords ''no chest pain''
   \<and> length (toLowerCase s) = length s
   \<and> toLowerCase (s @ t) = toLowerCase s @ toLowerCase t
   \<and> toLowerCase ''ABCDEFGHIJKLMNOPQRSTUVWXYZ'' = ''abcdefghijklmnopqrstuvwxyz''
   \<and> toLowerCase ''abcdefghijklmnopqrstuvwxyz 0123456789 ' '' =
       ''abcdefghijklmnopqrstuvwxyz 0123456789 ' ''
   \<and> toLowerCase [CHR 0xC9, CHR 0xD7, CHR 0xDF] = [CHR 0xE9, CHR 0xD7, CHR 0xDF]
   \<and> toLowerCase ''I have CHEST Pain'' = ''i have chest pain''
   \<and> containsEmergencyKeywords ''I have CHEST PAIN''
   \<and> containsEmergencyKeywords ''Heart Attack since noon''
   \<and> containsEmergencyKeywords ''I CAN'T BREATHE''
   \<and> \<not> containsEmergencyKeywords ''MILD HEADACHE''"
proof -
  have general: "containsEmergencyKeywords s \<longleftrightarrow>
      (\<exists>k \<in> set emergencyKeywords. \<exists>ps ss. toLowerCase s = ps @ k @ ss)"
    by (simp add: containsEmergencyKeywords_def list_ex_iff str_includes_iff)
  have len: "length emergencyKeywords = 12"
    by (simp add: emergencyKeywords_def)
  have pos: "containsEmergencyKeywords ''I have chest pain''"
    by (simp add: containsEmergencyKeywords_def emergencyKeywords_def toLowerCase_def
        toLowerCase_char_def)
  have neg: "\<not> containsEmergencyKeywords ''mild headache''"
    by (simp add: containsEmergencyKeywords_def emergencyKeywords_def toLowerCase_def
        toLowerCase_char_def)
  have blind: "containsEmergencyKeywords ''no chest pain''"
    by (simp add: containsEmergencyKeywords_def emergencyKeywords_def toLowerCase_def
        toLowerCase_char_def)
  have pointwise: "length (toLowerCase s) = length s"
    "toLowerCase (s @ t) = toLowerCase s @ toLowerCase t"
    by (simp_all add: toLowerCase_def)
  have capitals: "toLowerCase ''ABCDEFGHIJKLMNOPQRSTUVWXYZ'' = ''abcdefghijklmnopqrstuvwxyz''"
    by code_simp
  have others: "toLowerCase ''abcdefghijklmnopqrstuvwxyz 0123456789 ' '' =
       ''abcdefghijklmnopqrstuvwxyz 0123456789 ' ''"
    by (simp add: toLowerCase_def toLowerCase_char_def)
  have latin: "toLowerCase [CHR 0xC9, CHR 0xD7, CHR 0xDF] = [CHR 0xE9, CHR 0xD7, CHR 0xDF]"
    by code_simp
  have mixed: "toLowerCase ''I have CHEST Pain'' = ''i have chest pain''"
    by code_simp
  have upper: "containsEmergencyKeywords ''I have CHEST PAIN''"
    by code_simp
  have title: "containsEmergencyKeywords ''Heart Attack since noon''"
    by code_simp
  have apostrophe: "containsEmergencyKeywords ''I CAN'T BREATHE''"
    by code_simp
  have upper_neg: "\<not> containsEmergencyKeywords ''MILD HEADACHE''"
    by code_simp
  from general have "containsEmergencyKeywords s \<longleftrightarrow>
      (\<exists>k \<in> set [''chest pain'', ''difficulty breathing'', ''severe pain'',
                   ''bleeding heavily'', ''unconscious'', ''stroke'', ''heart attack'',
                   ''suicide'', ''overdose'', ''severe headache'', ''high fever'',
                   ''can't breathe''].
         \<exists>ps ss. toLowerCase s = ps @ k @ ss)"
    unfolding emergencyKeywords_def .
  with len pos neg blind pointwise capitals others latin mixed upper title apostrophe upper_neg
  show ?thesis by blast
qed

section \<open>Appointment slots and dates\<close>

lemma generateTimeSlots_value:
  "generateTimeSlots =
     [''09:00'', ''09:30'', ''10:00'', ''10:30'', ''11:00'', ''11:30'', ''12:00'', ''12:30'',
      ''13:00'', ''13:30'', ''14:00'', ''14:30'', ''15:00'', ''15:30'', ''16:00'', ''16:30'',
      ''17:00'', ''17:30'']"
  by code_simp

lemma spec_timeSlots_value:
  "spec_timeSlots =
     [''09:00'', ''09:30'', ''10:00'', ''10:30'', ''11:00'', ''11:30'', ''12:00'', ''12:30'',
      ''13:00'', ''13:30'', ''14:00'', ''14:30'', ''15:00'', ''15:30'', ''16:00'', ''16:30'',
      ''17:00'']"
  by code_simp

lemma half_hours_value:
  "map (\<lambda>i. timeString ((540 + 30 * i) div 60) ((540 + 30 * i) mod 60)) [0..<18] =
     [''09:00'', ''09:30'', ''10:00'', ''10:30'', ''11:00'', ''11:30'', ''12:00'', ''12:30'',
      ''13:00'', ''13:30'', ''14:00'', ''14:30'', ''15:00'', ''15:30'', ''16:00'', ''16:30'',
      ''17:00'', ''17:30'']"
  by code_simp

lemma Day_MakeDate:
  assumes "0 \<le> r" and "r < msPerDay"
  shows "Day (MakeDate d r) = d"
  using assms by (simp add: Day_def MakeDate_def msPerDay_def)

lemma MakeDate_local: "MakeDate (Day l + n) (TimeWithinDay l) = l + n * msPerDay"
  by (simp add: MakeDate_def Day_def TimeWithinDay_def algebra_simps)

lemma addLocalDays_same_date:
  assumes "same_date_ahead zone n now"
  shows "toISODate (addLocalDays zone n now) = localDate zone now + n"
proof -
  define wall where "wall = LocalTime zone now"
  define shift where "shift = offsetAtLocal zone (wall + n * msPerDay) * msPerMinute"
  from assms have lower: "0 \<le> TimeWithinDay wall - shift"
    and upper: "TimeWithinDay wall - shift < msPerDay"
    by (simp_all add: same_date_ahead_def Let_def wall_def shift_def)
  have "addLocalDays zone n now = (wall + n * msPerDay) - shift"
    by (simp add: addLocalDays_def Let_def UTC_def MakeDate_local wall_def shift_def)
  also have "\<dots> = MakeDate (Day wall + n) (TimeWithinDay wall - shift)"
    by (simp add: MakeDate_def Day_def TimeWithinDay_def algebra_simps)
  finally have "toISODate (addLocalDays zone n now) = Day wall + n"
    using Day_MakeDate [OF lower upper] by (simp add: toISODate_def)
  then show ?thesis by (simp add: localDate_def wall_def)
qed

text \<open>
  C3, as stated, fails. The hour loop runs through 17 and each hour gets both of its
  slots, so the list ends with 17:30, which lies outside 09:00-17:00. And the picker's
  bounds are calendar dates of UTC. At 01:00 on 3 November 2026 in India (time value
  1793647800000, local day 20760) the minimum is the current date itself and the maximum
  the 29th day after it. At 19:30 on 31 October 2026 in New York (1793489400000, day
  20757 both locally and in UTC) the minimum is the second day after the current date.
  At 01:30 on 28 March 2026 in Berlin (1774657800000, day 20540 both locally and in UTC)
  the maximum is the 29th day after the current date.
\<close>

theorem generateTimeSlots_counterexample:
  "generateTimeSlots \<noteq> spec_timeSlots
   \<and> ''17:30'' \<in> set generateTimeSlots
   \<and> ''17:30'' \<notin> set spec_timeSlots
   \<and> localDate India 1793647800000 = 20760
   \<and> getMinDate India 1793647800000 = 20760
   \<and> getMaxDate India 1793647800000 = 20789
   \<and> localDate NewYork 1793489400000 = 20757
   \<and> toISODate 1793489400000 = 20757
   \<and> getMinDate NewYork 1793489400000 = 20759
   \<and> localDate Berlin 1774657800000 = 20540
   \<and> toISODate 1774657800000 = 20540
   \<and> getMaxDate Berlin 1774657800000 = 20569"
proof -
  have india: "localDate India 1793647800000 = 20760"
    "getMinDate India 1793647800000 = 20760"
    "getMaxDate India 1793647800000 = 20789"
    by (simp_all add: localDate_def getMinDate_def getMaxDate_def addLocalDays_def
        toISODate_def LocalTime_def UTC_def MakeDate_def Day_def TimeWithinDay_def
        msPerDay_def msPerMinute_def India_def)
  have newyork: "localDate NewYork 1793489400000 = 20757"
    "toISODate 1793489400000 = 20757"
    "getMinDate NewYork 1793489400000 = 20759"
    by (simp_all add: localDate_def getMinDate_def addLocalDays_def
        toISODate_def LocalTime_def UTC_def MakeDate_def Day_def TimeWithinDay_def
        msPerDay_def msPerMinute_def NewYork_def)
  have berlin: "localDate Berlin 1774657800000 = 20540"
    "toISODate 1774657800000 = 20540"
    "getMaxDate Berlin 1774657800000 = 20569"
    by (simp_all add: localDate_def getMaxDate_def addLocalDays_def
        toISODate_def LocalTime_def UTC_def MakeDate_def Day_def TimeWithinDay_def
        msPerDay_def msPerMinute_def Berlin_def)
  from india newyork berlin show ?thesis
    by (simp add: generateTimeSlots_value spec_timeSlots_value)
qed

text \<open>
  C3, amended. \<open>generateTimeSlots\<close> returns the eighteen half-hour times from 09:00 to
  17:30 in ascending order (both slots of every hour from 9 to 17). The earliest date
  that can be picked is the day after the current date whenever, one local day ahead at
  the same local time of day, the calendar date in UTC is the date on the user's clock;
  the latest is 30 days after the current date whenever the same holds 30 local days
  ahead.
\<close>

theorem generateTimeSlots_amended:
  "generateTimeSlots =
     [''09:00'', ''09:30'', ''10:00'', ''10:30'', ''11:00'', ''11:30'', ''12:00'', ''12:30'',
      ''13:00'', ''13:30'', ''14:00'', ''14:30'', ''15:00'', ''15:30'', ''16:00'', ''16:30'',
      ''17:00'', ''17:30'']
   \<and> generateTimeSlots =
       map (\<lambda>i. timeString ((540 + 30 * i) div 60) ((540 + 30 * i) mod 60)) [0..<18]
   \<and> (same_date_ahead zone 1 now \<longrightarrow> getMinDate zone now = localDate zone now + 1)
   \<and> (same_date_ahead zone 30 now \<longrightarrow> getMaxDate zone now = localDate zone now + 30)"
proof -
  have slots: "generateTimeSlots =
     [''09:00'', ''09:30'', ''10:00'', ''10:30'', ''11:00'', ''11:30'', ''12:00'', ''12:30'',
      ''13:00'', ''13:30'', ''14:00'', ''14:30'', ''15:00'', ''15:30'', ''16:00'', ''16:30'',
      ''17:00'', ''17:30'']"
    by (rule generateTimeSlots_value)
  have steps: "generateTimeSlots =
       map (\<lambda>i. timeString ((540 + 30 * i) div 60) ((540 + 30 * i) mod 60)) [0..<18]"
    by (simp only: generateTimeSlots_value half_hours_value)
  have earliest: "same_date_ahead zone 1 now \<longrightarrow> getMinDate zone now = localDate zone now + 1"
    using addLocalDays_same_date [of zone 1 now] by (simp add: getMinDate_def)
  have latest: "same_date_ahead zone 30 now \<longrightarrow> getMaxDate zone now = localDate zone now + 30"
    using addLocalDays_same_date [of zone 30 now] by (simp add: getMaxDate_def)
  from slots steps earliest latest show ?thesis by blast
qed

theorem generateTimeSlots_amended_witness:
  "same_date_ahead India 1 1793687400000
   \<and> same_date_ahead India 30 1793687400000
   \<and> localDate India 1793687400000 = 20760
   \<and> getMinDate India 1793687400000 = 20761
   \<and> getMaxDate India 1793687400000 = 20790
   \<and> same_date_ahead NewYork 1 1793462400000
   \<and> localDate NewYork 1793462400000 = 20757
   \<and> getMinDate NewYork 1793462400000 = 20758"
proof -
  have india1: "same_date_ahead India 1 1793687400000"
    by (simp add: same_date_ahead_def LocalTime_def TimeWithinDay_def msPerDay_def
        msPerMinute_def India_def)
  have india30: "same_date_ahead India 30 1793687400000"
    by (simp add: same_date_ahead_def LocalTime_def TimeWithinDay_def msPerDay_def
        msPerMinute_def India_def)
  have today: "localDate India 1793687400000 = 20760"
    by (simp add: localDate_def LocalTime_def Day_def msPerDay_def msPerMinute_def India_def)
  have newyork1: "same_date_ahead NewYork 1 1793462400000"
    by (simp add: same_date_ahead_def LocalTime_def TimeWithinDay_def msPerDay_def
        msPerMinute_def NewYork_def)
  have halloween: "localDate NewYork 1793462400000 = 20757"
    by (simp add: localDate_def LocalTime_def Day_def msPerDay_def msPerMinute_def NewYork_def)
  from generateTimeSlots_amended [of India 1793687400000] india1 india30
  have "getMinDate India 1793687400000 = localDate India 1793687400000 + 1"
    and "getMaxDate India 1793687400000 = localDate India 1793687400000 + 30"
    by blast+
  moreover from generateTimeSlots_amended [of NewYork 1793462400000] newyork1
  have "getMinDate NewYork 1793462400000 = localDate NewYork 1793462400000 + 1"
    by blast
  ultimately show ?thesis
    using india1 india30 today newyork1 halloween by simp
qed

section \<open>Authentication\<close>

lemma install_token_fields:
  "medix_token (install_token d s) = Some (access_token d)"
  "Authorization (install_token d s) = Some (''Bearer '' @ access_token d)"
  "user (install_token d s) = data_user d"
  "loading (install_token d s) = loading s"
  by (simp_all add: install_token_def)

lemma login_resolved:
  "login email password (Resolved \<lparr>access_token = t, data_user = Some u\<rparr>) s =
     (install_token \<lparr>access_token = t, data_user = Some u\<rparr> s,
      [Api \<lparr>verb = POST, url = ''/auth/login'',
            body = [(''email'', Some email), (''password'', Some password)]\<rparr>,
       ToastSuccess (''Welcome back, '' @ full_name u @ ''!'')],
      \<lparr>success = True, error = None\<rparr>)"
  by (simp add: login_def)

lemma signup_resolved:
  "fst (signup userData (Resolved \<lparr>access_token = t, data_user = Some u\<rparr>) s) =
     install_token \<lparr>access_token = t, data_user = Some u\<rparr> s
   \<and> snd (snd (signup userData (Resolved \<lparr>access_token = t, data_user = Some u\<rparr>) s)) =
     \<lparr>success = True, error = None\<rparr>"
  by (simp add: signup_def Let_def)

lemma login_rejected:
  "login email password (Rejected detail) s =
     (s,
      [Api \<lparr>verb = POST, url = ''/auth/login'',
            body = [(''email'', Some email), (''password'', Some password)]\<rparr>,
       ToastError (or_default detail ''Login failed'')],
      \<lparr>success = False, error = Some (or_default detail ''Login failed'')\<rparr>)"
  by (simp add: login_def Let_def)

lemma signup_rejected:
  "signup userData (Rejected detail) s =
     (s,
      [Api \<lparr>verb = POST,
            url = (if map_of userData ''user_type'' = Some (Some ''patient'')
                   then ''/auth/signup/patient'' else ''/auth/signup/doctor''),
            body = userData\<rparr>,
       ToastError (or_default detail ''Signup failed'')],
      \<lparr>success = False, error = Some (or_default detail ''Signup failed'')\<rparr>)"
  by (simp add: signup_def Let_def)

lemma checkAuthStatus_rejected:
  assumes "truthy (medix_token s)"
  shows "medix_token (fst (checkAuthStatus (Rejected detail) s)) = None"
    and "Authorization (fst (checkAuthStatus (Rejected detail) s)) = None"
    and "user (fst (checkAuthStatus (Rejected detail) s)) = user s"
  using assms
  by (simp_all add: checkAuthStatus_def truthy_def Let_def split: option.splits)

text \<open>
  C7. A successful login or signup stores the returned access token, installs
  \<open>Bearer <token>\<close> as the default Authorization header and sets the user, so a request
  sent from then on carries the bearer token. Logout removes the stored token and the
  header and clears the user. A rejected \<open>/auth/me\<close> check (made when a token is stored)
  removes the stored token and the header.
\<close>

theorem auth_token_lifecycle:
  "(let s' = fst (login email password (Resolved \<lparr>access_token = t, data_user = Some u\<rparr>) s)
    in medix_token s' = Some t \<and> Authorization s' = Some (''Bearer '' @ t) \<and> user s' = Some u
       \<and> headers (api_send s' c) = [(''Authorization'', ''Bearer '' @ t)])
   \<and> (let s' = fst (signup userData (Resolved \<lparr>access_token = t, data_user = Some u\<rparr>) s)
       in medix_token s' = Some t \<and> Authorization s' = Some (''Bearer '' @ t) \<and> user s' = Some u
          \<and> headers (api_send s' c) = [(''Authorization'', ''Bearer '' @ t)])
   \<and> (let s' = fst (logout s)
       in medix_token s' = None \<and> Authorization s' = None \<and> user s' = None
          \<and> headers (api_send s' c) = [])
   \<and> (truthy (medix_token s) \<longrightarrow>
        (let s' = fst (checkAuthStatus (Rejected detail) s)
         in medix_token s' = None \<and> Authorization s' = None
            \<and> headers (api_send s' c) = []))"
proof -
  have a: "let s' = fst (login email password (Resolved \<lparr>access_token = t, data_user = Some u\<rparr>) s)
    in medix_token s' = Some t \<and> Authorization s' = Some (''Bearer '' @ t) \<and> user s' = Some u
       \<and> headers (api_send s' c) = [(''Authorization'', ''Bearer '' @ t)]"
    by (simp add: login_resolved install_token_fields api_send_def)
  have b: "let s' = fst (signup userData (Resolved \<lparr>access_token = t, data_user = Some u\<rparr>) s)
       in medix_token s' = Some t \<and> Authorization s' = Some (''Bearer '' @ t) \<and> user s' = Some u
          \<and> headers (api_send s' c) = [(''Authorization'', ''Bearer '' @ t)]"
    by (simp add: signup_resolved install_token_fields api_send_def)
  have c: "let s' = fst (logout s)
       in medix_token s' = None \<and> Authorization s' = None \<and> user s' = None
          \<and> headers (api_send s' c) = []"
    by (simp add: logout_def api_send_def)
  have d: "truthy (medix_token s) \<longrightarrow>
        (let s' = fst (checkAuthStatus (Rejected detail) s)
         in medix_token s' = None \<and> Authorization s' = None
            \<and> headers (api_send s' c) = [])"
    by (simp add: checkAuthStatus_rejected api_send_def)
  from a b c d show ?thesis by blast
qed

theorem auth_token_lifecycle_witness:
  "truthy (medix_token \<lparr>user = None, loading = True, medix_token = Some ''stale'',
                        Authorization = None\<rparr>)
   \<and> medix_token (fst (checkAuthStatus (Rejected None)
         \<lparr>user = None, loading = True, medix_token = Some ''stale'',
          Authorization = None\<rparr>)) = None
   \<and> Authorization (fst (checkAuthStatus (Rejected None)
         \<lparr>user = None, loading = True, medix_token = Some ''stale'',
          Authorization = None\<rparr>)) = None
   \<and> Authorization (fst (login ''a@b.c'' ''pw''
         (Resolved \<lparr>access_token = ''abc'',
                    data_user = Some \<lparr>full_name = ''Asha'', user_type = ''patient''\<rparr>\<rparr>)
         \<lparr>user = None, loading = False, medix_token = None, Authorization = None\<rparr>))
       = Some ''Bearer abc''"
proof -
  have present: "truthy (medix_token \<lparr>user = None, loading = True,
      medix_token = Some ''stale'', Authorization = None\<rparr>)"
    by (simp add: truthy_def)
  from present
    auth_token_lifecycle [of "''a@b.c''" "''pw''" "''abc''"
      "\<lparr>full_name = ''Asha'', user_type = ''patient''\<rparr>"
      "\<lparr>user = None, loading = True, medix_token = Some ''stale'', Authorization = None\<rparr>"
      "\<lparr>verb = GET, url = ''/auth/me'', body = []\<rparr>" "[]" None]
    auth_token_lifecycle [of "''a@b.c''" "''pw''" "''abc''"
      "\<lparr>full_name = ''Asha'', user_type = ''patient''\<rparr>"
      "\<lparr>user = None, loading = False, medix_token = None, Authorization = None\<rparr>"
      "\<lparr>verb = GET, url = ''/auth/me'', body = []\<rparr>" "[]" None]
  show ?thesis
    by (simp add: Let_def)
qed

text \<open>
  C8. When the login or the signup request is rejected, the function returns
  \<open>{success: false, error: message}\<close>; the message is the \<open>detail\<close> of the server's
  response when there is one (a non-empty text), and otherwise the fixed default. The
  state is returned as it was: stored token, Authorization header and user are unchanged.
\<close>

theorem auth_failure_leaves_state:
  "fst (login email password (Rejected detail) s) = s
   \<and> snd (snd (login email password (Rejected detail) s)) =
       \<lparr>success = False, error = Some (or_default detail ''Login failed'')\<rparr>
   \<and> fst (signup userData (Rejected detail) s) = s
   \<and> snd (snd (signup userData (Rejected detail) s)) =
       \<lparr>success = False, error = Some (or_default detail ''Signup failed'')\<rparr>
   \<and> medix_token (fst (login email password (Rejected detail) s)) = medix_token s
   \<and> Authorization (fst (login email password (Rejected detail) s)) = Authorization s
   \<and> user (fst (login email password (Rejected detail) s)) = user s
   \<and> medix_token (fst (signup userData (Rejected detail) s)) = medix_token s
   \<and> Authorization (fst (signup userData (Rejected detail) s)) = Authorization s
   \<and> user (fst (signup userData (Rejected detail) s)) = user s
   \<and> or_default (Some (x # xs)) dflt = x # xs
   \<and> or_default None dflt = dflt"
  by (simp add: login_rejected signup_rejected or_default_def)

section \<open>Route guards\<close>

lemma routes_authenticated:
  assumes "map_of (routes usr ld) path = Some (Page q)" and "q \<in> authenticated_pages"
  shows "usr \<noteq> None \<and> \<not> ld"
  using assms
  by (auto simp: routes_def ProtectedRoute_def PublicRoute_def authenticated_pages_def
      split: if_splits)

text \<open>
  C9. While the authentication state is loading, both guards render the spinner only.
  Once loading has finished, \<open>ProtectedRoute\<close> renders its page exactly when a user is
  present and navigates to /login otherwise; \<open>PublicRoute\<close> renders its page exactly
  when no user is present and navigates to /dashboard otherwise. Whatever the location,
  \<open>AppContent\<close> renders a page of the authenticated part only with a user present.
\<close>

theorem route_guard_invariant:
  "ProtectedRoute usr True children = Spinner
   \<and> PublicRoute usr True children = Spinner
   \<and> (ProtectedRoute usr False (Page p) = Page p \<longleftrightarrow> usr \<noteq> None)
   \<and> (usr = None \<longrightarrow> ProtectedRoute usr False children = Navigate ''/login'')
   \<and> (PublicRoute usr False (Page p) = Page p \<longleftrightarrow> usr = None)
   \<and> (usr \<noteq> None \<longrightarrow> PublicRoute usr False children = Navigate ''/dashboard'')
   \<and> (snd (AppContent s path) = Some (Page q) \<and> q \<in> authenticated_pages
        \<longrightarrow> user s \<noteq> None \<and> \<not> loading s)"
proof -
  have guards: "ProtectedRoute usr True children = Spinner
     \<and> PublicRoute usr True children = Spinner
     \<and> (ProtectedRoute usr False (Page p) = Page p \<longleftrightarrow> usr \<noteq> None)
     \<and> (usr = None \<longrightarrow> ProtectedRoute usr False children = Navigate ''/login'')
     \<and> (PublicRoute usr False (Page p) = Page p \<longleftrightarrow> usr = None)
     \<and> (usr \<noteq> None \<longrightarrow> PublicRoute usr False children = Navigate ''/dashboard'')"
    by (simp add: ProtectedRoute_def PublicRoute_def)
  have app: "snd (AppContent s path) = Some (Page q) \<and> q \<in> authenticated_pages
        \<longrightarrow> user s \<noteq> None \<and> \<not> loading s"
    using routes_authenticated [of "user s" "loading s" path q]
    by (auto simp: AppContent_def)
  from guards app show ?thesis by blast
qed

theorem route_guard_invariant_witness:
  "ProtectedRoute None False (Page SymptomChat) = Navigate ''/login''
   \<and> PublicRoute (Some \<lparr>full_name = ''Asha'', user_type = ''patient''\<rparr>) False (Page Login)
       = Navigate ''/dashboard''
   \<and> snd (AppContent \<lparr>user = Some \<lparr>full_name = ''Asha'', user_type = ''patient''\<rparr>,
                       loading = False, medix_token = Some ''abc'',
                       Authorization = Some ''Bearer abc''\<rparr> ''/chat'') = Some (Page SymptomChat)
   \<and> SymptomChat \<in> authenticated_pages
   \<and> snd (AppContent \<lparr>user = None, loading = False, medix_token = None,
                       Authorization = None\<rparr> ''/chat'') = Some (Navigate ''/login'')"
proof -
  have rendered: "snd (AppContent \<lparr>user = Some \<lparr>full_name = ''Asha'', user_type = ''patient''\<rparr>,
      loading = False, medix_token = Some ''abc'',
      Authorization = Some ''Bearer abc''\<rparr> ''/chat'') = Some (Page SymptomChat)"
    by (simp add: AppContent_def routes_def ProtectedRoute_def)
  have member: "SymptomChat \<in> authenticated_pages"
    by (simp add: authenticated_pages_def)
  have redirected: "snd (AppContent \<lparr>user = None, loading = False, medix_token = None,
      Authorization = None\<rparr> ''/chat'') = Some (Navigate ''/login'')"
    by (simp add: AppContent_def routes_def ProtectedRoute_def)
  from rendered member redirected
    route_guard_invariant [of None "Page SymptomChat" SymptomChat
      "\<lparr>user = Some \<lparr>full_name = ''Asha'', user_type = ''patient''\<rparr>, loading = False,
        medix_token = Some ''abc'', Authorization = Some ''Bearer abc''\<rparr>" "''/chat''" SymptomChat]
    route_guard_invariant [of "Some \<lparr>full_name = ''Asha'', user_type = ''patient''\<rparr>"
      "Page Login" Login
      "\<lparr>user = Some \<lparr>full_name = ''Asha'', user_type = ''patient''\<rparr>, loading = False,
        medix_token = Some ''abc'', Authorization = Some ''Bearer abc''\<rparr>" "''/chat''" SymptomChat]
  show ?thesis
    by simp
qed

section \<open>Image detection\<close>

text \<open>
  C4. A chosen file of more than 10 MB (10 * 1024 * 1024 = 10485760 bytes) is rejected:
  an error is shown, no read of the file is started, and the selected image and the
  preview stay as they were. Any other chosen file is read, and its data URL becomes both
  the selected image and the preview.
\<close>

theorem handleImageSelect_limit:
  "(10 * 1024 * 1024 < file_size f \<longrightarrow>
      handleImageSelect (Some f) s = (s, [ToastError ''Image size should be less than 10MB''])
      \<and> ReadAsDataURL f \<notin> set (snd (handleImageSelect (Some f) s))
      \<and> deliver_reads (handleImageSelect (Some f) s) = s)
   \<and> (file_size f \<le> 10 * 1024 * 1024 \<longrightarrow>
      handleImageSelect (Some f) s = (s, [ReadAsDataURL f])
      \<and> selectedImage (deliver_reads (handleImageSelect (Some f) s)) = Some (dataURL f)
      \<and> imagePreview (deliver_reads (handleImageSelect (Some f) s)) = Some (dataURL f))"
  by (simp add: handleImageSelect_def deliver_reads_def reader_onload_def)

theorem handleImageSelect_limit_witness:
  "(10::nat) * 1024 * 1024 < 10485761
   \<and> handleImageSelect
        (Some \<lparr>file_name = ''big.png'', file_size = 10485761, dataURL = ''data:image/png;base64,AAAA''\<rparr>)
        \<lparr>selectedModel = ''skin'', selectedImage = Some ''data:old'', imagePreview = Some ''data:old'',
         symptoms = [], detecting = False, results = (None :: string option)\<rparr>
       = (\<lparr>selectedModel = ''skin'', selectedImage = Some ''data:old'',
            imagePreview = Some ''data:old'', symptoms = [], detecting = False,
            results = None\<rparr>,
          [ToastError ''Image size should be less than 10MB''])
   \<and> selectedImage (deliver_reads (handleImageSelect
        (Some \<lparr>file_name = ''ok.png'', file_size = 10485760, dataURL = ''data:image/png;base64,AAAA''\<rparr>)
        \<lparr>selectedModel = ''skin'', selectedImage = Some ''data:old'', imagePreview = Some ''data:old'',
         symptoms = [], detecting = False, results = (None :: string option)\<rparr>))
       = Some ''data:image/png;base64,AAAA''"
proof -
  let ?big = "\<lparr>file_name = ''big.png'', file_size = 10485761,
               dataURL = ''data:image/png;base64,AAAA''\<rparr>"
  let ?ok = "\<lparr>file_name = ''ok.png'', file_size = 10485760,
              dataURL = ''data:image/png;base64,AAAA''\<rparr>"
  let ?s = "\<lparr>selectedModel = ''skin'', selectedImage = Some ''data:old'',
             imagePreview = Some ''data:old'', symptoms = [], detecting = False,
             results = (None :: string option)\<rparr>"
  have big: "10 * 1024 * 1024 < file_size ?big" by simp
  have ok: "file_size ?ok \<le> 10 * 1024 * 1024" by simp
  from handleImageSelect_limit [of ?big ?s] big
  have rejected: "handleImageSelect (Some ?big) ?s =
      (?s, [ToastError ''Image size should be less than 10MB''])"
    by blast
  from handleImageSelect_limit [of ?ok ?s] ok
  have "selectedImage (deliver_reads (handleImageSelect (Some ?ok) ?s)) = Some (dataURL ?ok)"
    by blast
  then have accepted: "selectedImage (deliver_reads (handleImageSelect (Some ?ok) ?s)) =
      Some ''data:image/png;base64,AAAA''"
    by simp
  from rejected accepted show ?thesis by simp
qed

lemma handleDetection_missing:
  assumes "selectedModel s = [] \<or> \<not> truthy (selectedImage s)"
  shows "handleDetection r s =
           (s, [ToastError (if selectedModel s = [] then ''Please select a disease type''
                            else ''Please upload an image'')])"
  using assms by (auto simp: handleDetection_def)

lemma handleDetection_sends:
  assumes "selectedModel s \<noteq> []" and "truthy (selectedImage s)"
  shows "hd (snd (handleDetection r s)) =
           Api \<lparr>verb = POST, url = ''/disease/detect'',
                body = [(''disease_type'', Some (selectedModel s)),
                        (''image_base64'', selectedImage s),
                        (''symptoms'', if \<forall>c \<in> set (symptoms s). isWhiteSpace c then None
                                      else Some (trim (symptoms s)))]\<rparr>"
    and "\<exists>e. tl (snd (handleDetection r s)) = [e] \<and> \<not> posts_to ''/disease/detect'' e"
  using assms
  by (auto simp: handleDetection_def Let_def trim_empty_iff posts_to_def split: reply.splits)

text \<open>
  C5. \<open>handleDetection\<close> posts to /disease/detect exactly when a disease type and an
  image are both selected. When one is missing it shows an error, sends nothing and leaves
  the state, the results among it, unchanged. The one request it sends carries the
  disease type, the image and the trimmed symptoms, which are \<open>null\<close> when the text is
  empty or white space only; the refiner is then not invoked.
\<close>

theorem handleDetection_request:
  "((\<exists>e \<in> set (snd (handleDetection r s)). posts_to ''/disease/detect'' e)
      \<longleftrightarrow> selectedModel s \<noteq> [] \<and> truthy (selectedImage s))
   \<and> (selectedModel s = [] \<or> \<not> truthy (selectedImage s) \<longrightarrow>
        fst (handleDetection r s) = s
        \<and> results (fst (handleDetection r s)) = results s
        \<and> (\<exists>text. snd (handleDetection r s) = [ToastError text]))
   \<and> (selectedModel s \<noteq> [] \<and> truthy (selectedImage s) \<longrightarrow>
        hd (snd (handleDetection r s)) =
          Api \<lparr>verb = POST, url = ''/disease/detect'',
               body = [(''disease_type'', Some (selectedModel s)),
                       (''image_base64'', selectedImage s),
                       (''symptoms'', if \<forall>c \<in> set (symptoms s). isWhiteSpace c then None
                                     else Some (trim (symptoms s)))]\<rparr>
        \<and> (\<exists>e. tl (snd (handleDetection r s)) = [e] \<and> \<not> posts_to ''/disease/detect'' e))
   \<and> (selectedModel s \<noteq> [] \<and> truthy (selectedImage s)
       \<and> (\<forall>c \<in> set (symptoms s). isWhiteSpace c) \<longrightarrow>
        request_symptoms (hd (snd (handleDetection r s))) = None
        \<and> \<not> refiner_invoked (request_symptoms (hd (snd (handleDetection r s)))))"
proof -
  have missing: "selectedModel s = [] \<or> \<not> truthy (selectedImage s) \<longrightarrow>
        fst (handleDetection r s) = s
        \<and> results (fst (handleDetection r s)) = results s
        \<and> (\<exists>text. snd (handleDetection r s) = [ToastError text])"
    by (simp add: handleDetection_missing)
  have sends: "selectedModel s \<noteq> [] \<and> truthy (selectedImage s) \<longrightarrow>
        hd (snd (handleDetection r s)) =
          Api \<lparr>verb = POST, url = ''/disease/detect'',
               body = [(''disease_type'', Some (selectedModel s)),
                       (''image_base64'', selectedImage s),
                       (''symptoms'', if \<forall>c \<in> set (symptoms s). isWhiteSpace c then None
                                     else Some (trim (symptoms s)))]\<rparr>
        \<and> (\<exists>e. tl (snd (handleDetection r s)) = [e] \<and> \<not> posts_to ''/disease/detect'' e)"
    using handleDetection_sends [of s r] by blast
  have iff: "(\<exists>e \<in> set (snd (handleDetection r s)). posts_to ''/disease/detect'' e)
      \<longleftrightarrow> selectedModel s \<noteq> [] \<and> truthy (selectedImage s)"
    by (auto simp: handleDetection_def Let_def posts_to_def split: reply.splits)
  have blank: "selectedModel s \<noteq> [] \<and> truthy (selectedImage s)
       \<and> (\<forall>c \<in> set (symptoms s). isWhiteSpace c) \<longrightarrow>
        request_symptoms (hd (snd (handleDetection r s))) = None
        \<and> \<not> refiner_invoked (request_symptoms (hd (snd (handleDetection r s))))"
    using handleDetection_sends(1) [where s = s and r = r]
    by (simp add: request_symptoms_def refiner_invoked_def)
  from iff missing sends blank show ?thesis by blast
qed

theorem handleDetection_request_witness:
  "truthy (selectedImage
      \<lparr>selectedModel = ''skin'', selectedImage = Some ''data:image/png;base64,AAAA'',
       imagePreview = Some ''data:image/png;base64,AAAA'', symptoms = ''  '',
       detecting = False, results = (None :: string option)\<rparr>)
   \<and> hd (snd (handleDetection (Rejected None)
      \<lparr>selectedModel = ''skin'', selectedImage = Some ''data:image/png;base64,AAAA'',
       imagePreview = Some ''data:image/png;base64,AAAA'', symptoms = ''  '',
       detecting = False, results = (None :: string option)\<rparr>))
     = Api \<lparr>verb = POST, url = ''/disease/detect'',
            body = [(''disease_type'', Some ''skin''),
                    (''image_base64'', Some ''data:image/png;base64,AAAA''),
                    (''symptoms'', None)]\<rparr>
   \<and> fst (handleDetection (Rejected None)
      \<lparr>selectedModel = [], selectedImage = Some ''data:image/png;base64,AAAA'',
       imagePreview = Some ''data:image/png;base64,AAAA'', symptoms = ''  '',
       detecting = False, results = Some ''earlier''\<rparr>)
     = \<lparr>selectedModel = [], selectedImage = Some ''data:image/png;base64,AAAA'',
        imagePreview = Some ''data:image/png;base64,AAAA'', symptoms = ''  '',
        detecting = False, results = Some ''earlier''\<rparr>"
proof -
  let ?s = "\<lparr>selectedModel = ''skin'', selectedImage = Some ''data:image/png;base64,AAAA'',
       imagePreview = Some ''data:image/png;base64,AAAA'', symptoms = ''  '',
       detecting = False, results = (None :: string option)\<rparr>"
  let ?unset = "\<lparr>selectedModel = [], selectedImage = Some ''data:image/png;base64,AAAA'',
       imagePreview = Some ''data:image/png;base64,AAAA'', symptoms = ''  '',
       detecting = False, results = Some ''earlier''\<rparr>"
  have image: "truthy (selectedImage ?s)" by (simp add: truthy_def)
  have model: "selectedModel ?s \<noteq> []" by simp
  have blank: "\<forall>c \<in> set (symptoms ?s). isWhiteSpace c" by (simp add: isWhiteSpace_def)
  from handleDetection_request [of "Rejected None" ?s] image model
  have "hd (snd (handleDetection (Rejected None) ?s)) =
          Api \<lparr>verb = POST, url = ''/disease/detect'',
               body = [(''disease_type'', Some (selectedModel ?s)),
                       (''image_base64'', selectedImage ?s),
                       (''symptoms'', if \<forall>c \<in> set (symptoms ?s). isWhiteSpace c then None
                                     else Some (trim (symptoms ?s)))]\<rparr>"
    by blast
  with blank have sent: "hd (snd (handleDetection (Rejected None) ?s)) =
          Api \<lparr>verb = POST, url = ''/disease/detect'',
               body = [(''disease_type'', Some ''skin''),
                       (''image_base64'', Some ''data:image/png;base64,AAAA''),
                       (''symptoms'', None)]\<rparr>"
    by simp
  have nomodel: "selectedModel ?unset = []" by simp
  from handleDetection_request [of "Rejected None" ?unset] nomodel
  have kept: "fst (handleDetection (Rejected None) ?unset) = ?unset"
    by blast
  from image sent kept show ?thesis by simp
qed

section \<open>Symptom chat\<close>

lemma sendMessage_blank:
  assumes "\<forall>c \<in> set (inputMessage s). isWhiteSpace c"
  shows "sendMessage r er s = (s, [])"
  using assms by (simp add: sendMessage_def trim_empty_iff)

text \<open>
  C10. When the text of the input is empty or white space only, \<open>sendMessage\<close> returns
  at once: the transcript gets no message, no request is issued and the session id stays
  as it is. The send button is disabled for such a text.
\<close>

theorem sendMessage_blank_noop:
  "(\<forall>c \<in> set (inputMessage s). isWhiteSpace c) \<longrightarrow>
     sendMessage r er s = (s, [])
     \<and> messages (fst (sendMessage r er s)) = messages s
     \<and> sessionId (fst (sendMessage r er s)) = sessionId s
     \<and> snd (sendMessage r er s) = []
     \<and> sendDisabled s"
  by (simp add: sendMessage_blank sendDisabled_def trim_empty_iff)

theorem sendMessage_blank_noop_witness:
  "(\<forall>c \<in> set (inputMessage (initial_chat_state\<lparr>inputMessage := [CHR '' '', CHR 0x09, CHR 0x0A]\<rparr>)).
      isWhiteSpace c) = True
   \<and> sendMessage (Resolved \<lparr>response = ''hello'', session_id = Some ''s1''\<rparr>) (Rejected None)
        (initial_chat_state\<lparr>inputMessage := [CHR '' '', CHR 0x09, CHR 0x0A]\<rparr>)
      = (initial_chat_state\<lparr>inputMessage := [CHR '' '', CHR 0x09, CHR 0x0A]\<rparr>, [])
   \<and> sendDisabled (initial_chat_state\<lparr>inputMessage := [CHR '' '', CHR 0x09, CHR 0x0A]\<rparr>)"
proof -
  let ?s = "initial_chat_state\<lparr>inputMessage := [CHR '' '', CHR 0x09, CHR 0x0A]\<rparr>"
  have blank: "\<forall>c \<in> set (inputMessage ?s). isWhiteSpace c"
    by (simp add: isWhiteSpace_def)
  from sendMessage_blank_noop
    [of ?s "Resolved \<lparr>response = ''hello'', session_id = Some ''s1''\<rparr>" "Rejected None"] blank
  have "sendMessage (Resolved \<lparr>response = ''hello'', session_id = Some ''s1''\<rparr>) (Rejected None) ?s
      = (?s, []) \<and> sendDisabled ?s"
    by blast
  with blank show ?thesis by simp
qed

section \<open>Appointment list\<close>

lemma appointmentActions_cases:
  "appointmentActions usr a =
     (if status a = ''scheduled'' then
        (case meet_link a of
           None \<Rightarrow> []
         | Some link \<Rightarrow> if link = [] then [] else [JoinCall link])
        @ (if map_option user_type usr = Some ''doctor''
           then [StatusButton ''Complete'' (appointment_id a) ''completed'',
                 StatusButton ''Cancel'' (appointment_id a) ''cancelled'']
           else [StatusButton ''Cancel'' (appointment_id a) ''cancelled''])
      else [])"
  by (simp add: appointmentActions_def truthy_def split: option.split)

text \<open>
  C2. For every appointment of the list, a button that changes the status is offered only
  while the status is \<open>scheduled\<close>; nothing is offered for a completed or cancelled one.
  Complete (\<open>updateAppointmentStatus\<close> with \<open>completed\<close>) is offered only to a doctor,
  Cancel (with \<open>cancelled\<close>) to whoever is logged in, patient or doctor.
\<close>

theorem appointmentActions_guard:
  "(StatusButton label i st \<in> set (appointmentActions usr a) \<longrightarrow>
      status a = ''scheduled'' \<and> status a \<noteq> ''completed'' \<and> status a \<noteq> ''cancelled''
      \<and> i = appointment_id a \<and> (st = ''completed'' \<or> st = ''cancelled''))
   \<and> (StatusButton label i ''completed'' \<in> set (appointmentActions usr a) \<longrightarrow>
        map_option user_type usr = Some ''doctor'')
   \<and> (StatusButton ''Complete'' i ''completed'' \<in> set (appointmentActions usr a) \<longleftrightarrow>
        status a = ''scheduled'' \<and> map_option user_type usr = Some ''doctor''
        \<and> i = appointment_id a)
   \<and> (StatusButton ''Cancel'' i ''cancelled'' \<in> set (appointmentActions usr a) \<longleftrightarrow>
        status a = ''scheduled'' \<and> i = appointment_id a)
   \<and> (status a = ''completed'' \<or> status a = ''cancelled'' \<longrightarrow> appointmentActions usr a = [])
   \<and> hd (click (StatusButton label i st) r) =
        Api \<lparr>verb = PUT,
             url = ''/appointments/appointments/'' @ toString_nat i @ ''/status'',
             body = [(''status'', Some st), (''notes'', Some [])]\<rparr>"
proof -
  have any: "StatusButton label i st \<in> set (appointmentActions usr a) \<longrightarrow>
      status a = ''scheduled'' \<and> status a \<noteq> ''completed'' \<and> status a \<noteq> ''cancelled''
      \<and> i = appointment_id a \<and> (st = ''completed'' \<or> st = ''cancelled'')"
    by (cases "status a = ''scheduled''"; cases "map_option user_type usr = Some ''doctor''";
        cases "meet_link a") (simp_all add: appointmentActions_cases)
  have doctor_only: "StatusButton label i ''completed'' \<in> set (appointmentActions usr a) \<longrightarrow>
        map_option user_type usr = Some ''doctor''"
    by (cases "status a = ''scheduled''"; cases "map_option user_type usr = Some ''doctor''";
        cases "meet_link a") (simp_all add: appointmentActions_cases)
  have complete: "StatusButton ''Complete'' i ''completed'' \<in> set (appointmentActions usr a) \<longleftrightarrow>
        status a = ''scheduled'' \<and> map_option user_type usr = Some ''doctor''
        \<and> i = appointment_id a"
    by (cases "status a = ''scheduled''"; cases "map_option user_type usr = Some ''doctor''";
        cases "meet_link a") (simp_all add: appointmentActions_cases)
  have cancel: "StatusButton ''Cancel'' i ''cancelled'' \<in> set (appointmentActions usr a) \<longleftrightarrow>
        status a = ''scheduled'' \<and> i = appointment_id a"
    by (cases "status a = ''scheduled''"; cases "map_option user_type usr = Some ''doctor''";
        cases "meet_link a") (simp_all add: appointmentActions_cases)
  have terminal: "status a = ''completed'' \<or> status a = ''cancelled'' \<longrightarrow>
        appointmentActions usr a = []"
    by (auto simp: appointmentActions_cases)
  have put: "hd (click (StatusButton label i st) r) =
        Api \<lparr>verb = PUT,
             url = ''/appointments/appointments/'' @ toString_nat i @ ''/status'',
             body = [(''status'', Some st), (''notes'', Some [])]\<rparr>"
    by (simp add: click_def updateAppointmentStatus_def)
  from any doctor_only complete cancel terminal put show ?thesis by blast
qed

theorem appointmentActions_guard_witness:
  "appointmentActions (Some \<lparr>full_name = ''Dr Rao'', user_type = ''doctor''\<rparr>)
      \<lparr>appointment_id = 7, status = ''scheduled'', meet_link = None\<rparr>
     = [StatusButton ''Complete'' 7 ''completed'', StatusButton ''Cancel'' 7 ''cancelled'']
   \<and> appointmentActions (Some \<lparr>full_name = ''Asha'', user_type = ''patient''\<rparr>)
      \<lparr>appointment_id = 7, status = ''scheduled'', meet_link = None\<rparr>
     = [StatusButton ''Cancel'' 7 ''cancelled'']
   \<and> appointmentActions (Some \<lparr>full_name = ''Dr Rao'', user_type = ''doctor''\<rparr>)
      \<lparr>appointment_id = 7, status = ''completed'', meet_link = Some ''https://meet.example/x''\<rparr>
     = []"
proof -
  let ?doctor = "Some \<lparr>full_name = ''Dr Rao'', user_type = ''doctor''\<rparr>"
  let ?done = "\<lparr>appointment_id = 7, status = ''completed'',
                meet_link = Some ''https://meet.example/x''\<rparr>"
  have "status ?done = ''completed''" by simp
  with appointmentActions_guard [of "''Complete''" 7 "''completed''" ?doctor ?done "Rejected None"]
  have terminal: "appointmentActions ?doctor ?done = []"
    by blast
  have doctor: "appointmentActions ?doctor
      \<lparr>appointment_id = 7, status = ''scheduled'', meet_link = None\<rparr>
     = [StatusButton ''Complete'' 7 ''completed'', StatusButton ''Cancel'' 7 ''cancelled'']"
    by (simp add: appointmentActions_cases)
  have patient: "appointmentActions (Some \<lparr>full_name = ''Asha'', user_type = ''patient''\<rparr>)
      \<lparr>appointment_id = 7, status = ''scheduled'', meet_link = None\<rparr>
     = [StatusButton ''Cancel'' 7 ''cancelled'']"
    by (simp add: appointmentActions_cases)
  from doctor patient terminal show ?thesis by simp
qed

section \<open>The session protocol of the chat\<close>



text \<open>A call of \<open>sendMessage\<close> that nothing interrupts is the sequence of its parts.\<close>

lemma sendMessage_parts:
  "sendMessage r er s =
     (case sendMessage_call s of
        (s1, e1, None) \<Rightarrow> (s1, e1)
      | (s1, e1, Some w) \<Rightarrow>
          (case sendMessage_answered (sessionId s) (inputMessage s) r s1 of
             (s2, e2, None) \<Rightarrow> (s2, e1 @ e2)
           | (s2, e2, Some w') \<Rightarrow> (sendMessage_assessed er s2, e1 @ e2)))"
  by (simp add: sendMessage_def sendMessage_call_def sendMessage_answered_def
      sendMessage_assessed_def sendMessage_finally_def checkEmergencyStatus_def
      chat_request_def start_call_def continue_call_def Let_def
      split: reply.split)














end
